theory Spec2Isabelle
  imports Complex_Main "HOL-Library.AList"
begin

section \<open>Data model of the delivery cost calculator\<close>

text \<open>
  The four location names of \<^verbatim>\<open>LOCATIONS\<close> are used by the program as an enumeration;
  product codes come from the request and stay strings.

  Python floats are modelled as exact rationals, extended by one value for
  \<^verbatim>\<open>float('inf')\<close>. Every catalog weight and every distance is a multiple of one half,
  so for quantities of realistic size the sums and products of the program are computed
  without rounding and the model agrees with the float arithmetic of the source. The
  constructor \<open>PInf\<close> is the only non-finite value that the program's own arithmetic
  builds.
\<close>

datatype loc = C1 | C2 | C3 | L1

datatype pyfloat = Fin rat | PInf

text \<open>Addition and \<^verbatim>\<open>min\<close> of floats where one side may be infinite.\<close>

fun fadd :: "pyfloat \<Rightarrow> pyfloat \<Rightarrow> pyfloat" where
  "fadd (Fin a) (Fin b) = Fin (a + b)"
| "fadd PInf y = PInf"
| "fadd (Fin a) PInf = PInf"

fun fmin :: "pyfloat \<Rightarrow> pyfloat \<Rightarrow> pyfloat" where
  "fmin (Fin a) (Fin b) = Fin (min a b)"
| "fmin PInf y = y"
| "fmin (Fin a) PInf = Fin a"

fun fle :: "pyfloat \<Rightarrow> pyfloat \<Rightarrow> bool" where
  "fle (Fin a) (Fin b) = (a \<le> b)"
| "fle x PInf = True"
| "fle PInf (Fin b) = False"

text \<open>Python's \<^verbatim>\<open>round\<close> of a float to an integer: nearest, ties to the even integer.\<close>

definition py_round :: "rat \<Rightarrow> int" where
  "py_round r =
     (let f = \<lfloor>r\<rfloor>; d = r - of_int f
      in if d < 1 / 2 then f
         else if 1 / 2 < d then f + 1
         else if even f then f else f + 1)"

record product_info =
  center :: loc
  weight :: rat

definition PRODUCTS :: "(string \<times> product_info) list" where
  "PRODUCTS =
     [(''A'', \<lparr>center = C1, weight = 3\<rparr>), (''B'', \<lparr>center = C1, weight = 2\<rparr>),
      (''C'', \<lparr>center = C1, weight = 8\<rparr>), (''D'', \<lparr>center = C2, weight = 12\<rparr>),
      (''E'', \<lparr>center = C2, weight = 25\<rparr>), (''F'', \<lparr>center = C2, weight = 15\<rparr>),
      (''G'', \<lparr>center = C3, weight = 1 / 2\<rparr>), (''H'', \<lparr>center = C3, weight = 1\<rparr>),
      (''I'', \<lparr>center = C3, weight = 2\<rparr>)]"

type_synonym distance_table = "((loc \<times> loc) \<times> rat) list"

definition DISTANCES :: distance_table where
  "DISTANCES =
     [((C1, L1), 3), ((L1, C1), 3),
      ((C2, L1), 5 / 2), ((L1, C2), 5 / 2),
      ((C3, L1), 2), ((L1, C3), 2),
      ((C1, C2), 4), ((C2, C1), 4),
      ((C2, C3), 3), ((C3, C2), 3)]"

definition CENTERS :: "loc list" where
  "CENTERS = [C1, C2, C3]"

definition LOCATIONS :: "loc list" where
  "LOCATIONS = [C1, C2, C3, L1]"

section \<open>Helper functions of \<^verbatim>\<open>src/app.py\<close>\<close>

text \<open>
  \<^verbatim>\<open>get_distance\<close> reads the module-level table. The table is a parameter of the model,
  so that statements about a reconfigured topology can be made; the program itself always
  passes \<open>DISTANCES\<close>.
\<close>

definition get_distance :: "distance_table \<Rightarrow> loc \<Rightarrow> loc \<Rightarrow> pyfloat" where
  "get_distance tbl loc1 loc2 =
     (if loc1 = loc2 then Fin 0
      else (case map_of tbl (loc1, loc2) of
              Some d \<Rightarrow> Fin d
            | None \<Rightarrow> (case map_of tbl (loc2, loc1) of
                         Some d \<Rightarrow> Fin d
                       | None \<Rightarrow> PInf)))"

definition epsilon :: rat where
  "epsilon = 1 / 1000000000"

definition cost_per_unit :: "rat \<Rightarrow> rat" where
  "cost_per_unit w =
     (if w \<le> epsilon then 10
      else if w \<le> 5 + epsilon then 10
      else 10 + 8 * of_int \<lceil>max 0 (w - 5 - epsilon) / 5\<rceil>)"

fun calculate_segment_cost :: "rat \<Rightarrow> pyfloat \<Rightarrow> pyfloat" where
  "calculate_segment_cost w PInf = Fin 0"
| "calculate_segment_cost w (Fin distance) =
     (if distance \<le> 0 then Fin 0 else Fin (cost_per_unit w * distance))"

definition calculate_travel_cost_between_stops ::
  "distance_table \<Rightarrow> loc \<Rightarrow> loc \<Rightarrow> rat \<Rightarrow> pyfloat" where
  "calculate_travel_cost_between_stops tbl loc_a loc_b weight_carried =
     (let direct_dist = get_distance tbl loc_a loc_b
      in if direct_dist \<noteq> PInf then calculate_segment_cost weight_carried direct_dist
         else if (loc_a = C1 \<and> loc_b = C3) \<or> (loc_a = C3 \<and> loc_b = C1) then
           (let dist_a_c2 = get_distance tbl loc_a C2;
                cost_a_c2 = calculate_segment_cost weight_carried dist_a_c2;
                dist_c2_b = get_distance tbl C2 loc_b;
                cost_c2_b = calculate_segment_cost weight_carried dist_c2_b
            in if cost_a_c2 = PInf \<or> cost_c2_b = PInf then PInf
               else fadd cost_a_c2 cost_c2_b)
         else PInf)"

section \<open>Order parsing\<close>

text \<open>
  A quantity of the request is any Python value. The program only asks whether it is an
  \<^verbatim>\<open>int\<close> (booleans are, with values 0 and 1) and then uses its integer value; every
  other value is \<open>PyOther\<close>. An order is the list of the dict's items in iteration order.

  The loop runs inside \<^verbatim>\<open>try ... except Exception\<close>. On the values of this model no step
  of the loop raises, so the handler's message is not among the errors below.
\<close>

datatype pyval = PyInt int | PyOther

datatype error =
    InvalidQuantity string pyval
  | ProductNotFound string
  | NoValidPath

record demand =
  items_needed :: "(string \<times> int) list"
  needed_centers :: "loc set"
  weight_from_center :: "loc \<Rightarrow> rat"
  total_weight :: rat

definition initial_demand :: demand where
  "initial_demand =
     \<lparr>items_needed = [], needed_centers = {}, weight_from_center = (\<lambda>c. 0),
      total_weight = 0\<rparr>"

fun parse_order :: "(string \<times> pyval) list \<Rightarrow> demand \<Rightarrow> error + demand" where
  "parse_order [] st = Inr st"
| "parse_order ((product_code, PyOther) # rest) st =
     Inl (InvalidQuantity product_code PyOther)"
| "parse_order ((product_code, PyInt quantity) # rest) st =
     (if quantity < 0 then Inl (InvalidQuantity product_code (PyInt quantity))
      else if quantity = 0 then parse_order rest st
      else (case map_of PRODUCTS product_code of
              None \<Rightarrow> Inl (ProductNotFound product_code)
            | Some info \<Rightarrow>
                (let item_total_weight = weight info * of_int quantity
                 in parse_order rest
                      (st\<lparr>items_needed := AList.update product_code quantity (items_needed st),
                          needed_centers := insert (center info) (needed_centers st),
                          weight_from_center :=
                            (weight_from_center st)
                              (center info := weight_from_center st (center info) + item_total_weight),
                          total_weight := total_weight st + item_total_weight\<rparr>))))"

section \<open>Route search\<close>

text \<open>
  \<^verbatim>\<open>itertools.permutations\<close>: every element in turn as the head, followed by the
  permutations of the others, in position order.
\<close>

fun select :: "'a list \<Rightarrow> ('a \<times> 'a list) list" where
  "select [] = []"
| "select (x # xs) = (x, xs) # map (\<lambda>(y, ys). (y, x # ys)) (select xs)"

primrec perms_upto :: "nat \<Rightarrow> 'a list \<Rightarrow> 'a list list" where
  "perms_upto 0 xs = [[]]"
| "perms_upto (Suc n) xs =
     concat (map (\<lambda>(y, ys). map ((#) y) (perms_upto n ys)) (select xs))"

definition permutations :: "'a list \<Rightarrow> 'a list list" where
  "permutations xs = perms_upto (length xs) xs"

text \<open>
  The members of a set of locations as a list. Python leaves the iteration order of a set
  open; the search takes a minimum over all permutations of the list, so the order chosen
  here does not show in the result.
\<close>

definition list_of_set :: "loc set \<Rightarrow> loc list" where
  "list_of_set S = filter (\<lambda>c. c \<in> S) LOCATIONS"

text \<open>
  The inner loop over one visiting order: \<open>None\<close> when a leg is unreachable
  (\<^verbatim>\<open>valid_path = False; break\<close>), otherwise the cost so far, the weight carried and the
  last location.
\<close>

fun pickup_legs ::
  "distance_table \<Rightarrow> (loc \<Rightarrow> rat) \<Rightarrow> loc list \<Rightarrow> loc \<Rightarrow> rat \<Rightarrow> rat \<Rightarrow> (rat \<times> rat \<times> loc) option" where
  "pickup_legs tbl wfc [] loc_a cost w = Some (cost, w, loc_a)"
| "pickup_legs tbl wfc (loc_b # rest) loc_a cost w =
     (case calculate_travel_cost_between_stops tbl loc_a loc_b w of
        PInf \<Rightarrow> None
      | Fin segment_cost \<Rightarrow> pickup_legs tbl wfc rest loc_b (cost + segment_cost) (w + wfc loc_b))"

text \<open>
  One iteration of the loop over permutations: the running minimum after the visiting
  order \<open>order\<close>, started at \<open>start\<close> with weight \<open>w0\<close> and closed by a leg to the hub at
  weight \<open>w_final\<close>.
\<close>

definition perm_step ::
  "distance_table \<Rightarrow> (loc \<Rightarrow> rat) \<Rightarrow> loc \<Rightarrow> rat \<Rightarrow> rat \<Rightarrow> loc list \<Rightarrow> pyfloat \<Rightarrow> pyfloat" where
  "perm_step tbl wfc start w0 w_final order min_perm_cost =
     (case pickup_legs tbl wfc order start 0 w0 of
        None \<Rightarrow> min_perm_cost
      | Some (current_perm_cost, current_perm_weight, loc_a) \<Rightarrow>
          (case calculate_travel_cost_between_stops tbl loc_a L1 w_final of
             PInf \<Rightarrow> min_perm_cost
           | Fin final_leg_cost \<Rightarrow>
               fmin min_perm_cost (Fin (current_perm_cost + final_leg_cost))))"

definition cost_simple :: "distance_table \<Rightarrow> demand \<Rightarrow> loc \<Rightarrow> pyfloat" where
  "cost_simple tbl st start_center =
     (let pickup_centers_to_visit = list_of_set (needed_centers st - {start_center})
      in if pickup_centers_to_visit = [] then
           (if start_center \<in> needed_centers st \<or> needed_centers st = {}
            then calculate_travel_cost_between_stops tbl start_center L1 (total_weight st)
            else PInf)
         else fold (perm_step tbl (weight_from_center st) start_center
                      (weight_from_center st start_center) (total_weight st))
                (permutations pickup_centers_to_visit) PInf)"

definition cost_partial :: "distance_table \<Rightarrow> demand \<Rightarrow> loc \<Rightarrow> pyfloat" where
  "cost_partial tbl st start_center =
     (if 0 < weight_from_center st start_center \<and> 1 < card (needed_centers st) then
        (let w_leg1 = weight_from_center st start_center;
             cost_leg1 = calculate_travel_cost_between_stops tbl start_center L1 w_leg1
         in if cost_leg1 \<noteq> PInf then
              (let remaining_centers = list_of_set (needed_centers st - {start_center});
                   weight_remaining = total_weight st - w_leg1;
                   cost_pickup_and_final_leg =
                     (if remaining_centers \<noteq> [] then
                        fold (perm_step tbl (weight_from_center st) L1 0 weight_remaining)
                          (permutations remaining_centers) PInf
                      else Fin 0)
               in if cost_pickup_and_final_leg \<noteq> PInf
                  then fadd cost_leg1 cost_pickup_and_final_leg
                  else PInf)
            else PInf)
      else PInf)"

definition min_overall_cost :: "distance_table \<Rightarrow> demand \<Rightarrow> pyfloat" where
  "min_overall_cost tbl st =
     fold (\<lambda>start_center m.
             fmin m (fmin (cost_simple tbl st start_center) (cost_partial tbl st start_center)))
       CENTERS PInf"

definition calculate_overall_minimum_cost :: "(string \<times> pyval) list \<Rightarrow> error + int" where
  "calculate_overall_minimum_cost order_data =
     (case parse_order order_data initial_demand of
        Inl parse_error \<Rightarrow> Inl parse_error
      | Inr st \<Rightarrow>
          if items_needed st = [] then Inr 0
          else (case min_overall_cost DISTANCES st of
                  PInf \<Rightarrow> Inl NoValidPath
                | Fin m \<Rightarrow> Inr (py_round m)))"

section \<open>The second entry point, \<^verbatim>\<open>src/netlify/functions/app.py\<close>\<close>

text \<open>
  The serverless entry point carries its own copy of the tables, the helpers and the core.
  Each is embedded from that file; the types and the float operations are shared. The two
  files word their error messages differently, which the \<open>error\<close> values do not record.
\<close>

definition nf_PRODUCTS :: "(string \<times> product_info) list" where
  "nf_PRODUCTS =
     [(''A'', \<lparr>center = C1, weight = 3\<rparr>), (''B'', \<lparr>center = C1, weight = 2\<rparr>),
      (''C'', \<lparr>center = C1, weight = 8\<rparr>), (''D'', \<lparr>center = C2, weight = 12\<rparr>),
      (''E'', \<lparr>center = C2, weight = 25\<rparr>), (''F'', \<lparr>center = C2, weight = 15\<rparr>),
      (''G'', \<lparr>center = C3, weight = 1 / 2\<rparr>), (''H'', \<lparr>center = C3, weight = 1\<rparr>),
      (''I'', \<lparr>center = C3, weight = 2\<rparr>)]"

definition nf_DISTANCES :: distance_table where
  "nf_DISTANCES =
     [((C1, L1), 3), ((L1, C1), 3), ((C2, L1), 5 / 2), ((L1, C2), 5 / 2),
      ((C3, L1), 2), ((L1, C3), 2), ((C1, C2), 4), ((C2, C1), 4),
      ((C2, C3), 3), ((C3, C2), 3)]"

definition nf_CENTERS :: "loc list" where
  "nf_CENTERS = [C1, C2, C3]"

definition nf_get_distance :: "loc \<Rightarrow> loc \<Rightarrow> pyfloat" where
  "nf_get_distance loc1 loc2 =
     (if loc1 = loc2 then Fin 0
      else (case map_of nf_DISTANCES (loc1, loc2) of
              Some d \<Rightarrow> Fin d
            | None \<Rightarrow> (case map_of nf_DISTANCES (loc2, loc1) of
                         Some d \<Rightarrow> Fin d
                       | None \<Rightarrow> PInf)))"

fun nf_calculate_segment_cost :: "rat \<Rightarrow> pyfloat \<Rightarrow> pyfloat" where
  "nf_calculate_segment_cost w PInf = Fin 0"
| "nf_calculate_segment_cost w (Fin distance) =
     (if distance \<le> 0 then Fin 0
      else Fin ((if w \<le> epsilon then 10
                 else if w \<le> 5 + epsilon then 10
                 else 10 + 8 * of_int \<lceil>max 0 (w - 5 - epsilon) / 5\<rceil>) * distance))"

definition nf_calculate_travel_cost_between_stops :: "loc \<Rightarrow> loc \<Rightarrow> rat \<Rightarrow> pyfloat" where
  "nf_calculate_travel_cost_between_stops loc_a loc_b weight_carried =
     (let direct_dist = nf_get_distance loc_a loc_b
      in if direct_dist \<noteq> PInf then nf_calculate_segment_cost weight_carried direct_dist
         else if (loc_a, loc_b) \<in> set [(C1, C3), (C3, C1)] then
           (let dist_a_c2 = nf_get_distance loc_a C2;
                cost_a_c2 = nf_calculate_segment_cost weight_carried dist_a_c2;
                dist_c2_b = nf_get_distance C2 loc_b;
                cost_c2_b = nf_calculate_segment_cost weight_carried dist_c2_b
            in if cost_a_c2 = PInf \<or> cost_c2_b = PInf then PInf
               else fadd cost_a_c2 cost_c2_b)
         else PInf)"

fun nf_parse_order :: "(string \<times> pyval) list \<Rightarrow> demand \<Rightarrow> error + demand" where
  "nf_parse_order [] st = Inr st"
| "nf_parse_order ((product_code, PyOther) # rest) st =
     Inl (InvalidQuantity product_code PyOther)"
| "nf_parse_order ((product_code, PyInt quantity) # rest) st =
     (if quantity < 0 then Inl (InvalidQuantity product_code (PyInt quantity))
      else if quantity = 0 then nf_parse_order rest st
      else (case map_of nf_PRODUCTS product_code of
              None \<Rightarrow> Inl (ProductNotFound product_code)
            | Some info \<Rightarrow>
                (let item_total_weight = weight info * of_int quantity
                 in nf_parse_order rest
                      (st\<lparr>items_needed := AList.update product_code quantity (items_needed st),
                          needed_centers := insert (center info) (needed_centers st),
                          weight_from_center :=
                            (weight_from_center st)
                              (center info := weight_from_center st (center info) + item_total_weight),
                          total_weight := total_weight st + item_total_weight\<rparr>))))"

fun nf_pickup_legs ::
  "(loc \<Rightarrow> rat) \<Rightarrow> loc list \<Rightarrow> loc \<Rightarrow> rat \<Rightarrow> rat \<Rightarrow> (rat \<times> rat \<times> loc) option" where
  "nf_pickup_legs wfc [] loc_a cost w = Some (cost, w, loc_a)"
| "nf_pickup_legs wfc (loc_b # rest) loc_a cost w =
     (case nf_calculate_travel_cost_between_stops loc_a loc_b w of
        PInf \<Rightarrow> None
      | Fin segment_cost \<Rightarrow> nf_pickup_legs wfc rest loc_b (cost + segment_cost) (w + wfc loc_b))"

definition nf_perm_step ::
  "(loc \<Rightarrow> rat) \<Rightarrow> loc \<Rightarrow> rat \<Rightarrow> rat \<Rightarrow> loc list \<Rightarrow> pyfloat \<Rightarrow> pyfloat" where
  "nf_perm_step wfc start w0 w_final order min_perm_cost =
     (case nf_pickup_legs wfc order start 0 w0 of
        None \<Rightarrow> min_perm_cost
      | Some (current_perm_cost, current_perm_weight, loc_a) \<Rightarrow>
          (case nf_calculate_travel_cost_between_stops loc_a L1 w_final of
             PInf \<Rightarrow> min_perm_cost
           | Fin final_leg_cost \<Rightarrow>
               fmin min_perm_cost (Fin (current_perm_cost + final_leg_cost))))"

definition nf_cost_simple :: "demand \<Rightarrow> loc \<Rightarrow> pyfloat" where
  "nf_cost_simple st start_center =
     (let pickup_centers_to_visit = list_of_set (needed_centers st - {start_center})
      in if pickup_centers_to_visit = [] then
           (if start_center \<in> needed_centers st \<or> needed_centers st = {}
            then nf_calculate_travel_cost_between_stops start_center L1 (total_weight st)
            else PInf)
         else fold (nf_perm_step (weight_from_center st) start_center
                      (weight_from_center st start_center) (total_weight st))
                (permutations pickup_centers_to_visit) PInf)"

definition nf_cost_partial :: "demand \<Rightarrow> loc \<Rightarrow> pyfloat" where
  "nf_cost_partial st start_center =
     (if 0 < weight_from_center st start_center \<and> 1 < card (needed_centers st) then
        (let w_leg1 = weight_from_center st start_center;
             cost_leg1 = nf_calculate_travel_cost_between_stops start_center L1 w_leg1
         in if cost_leg1 \<noteq> PInf then
              (let remaining_centers = list_of_set (needed_centers st - {start_center});
                   weight_remaining = total_weight st - w_leg1;
                   cost_pickup_and_final_leg =
                     (if remaining_centers \<noteq> [] then
                        fold (nf_perm_step (weight_from_center st) L1 0 weight_remaining)
                          (permutations remaining_centers) PInf
                      else Fin 0)
               in if cost_pickup_and_final_leg \<noteq> PInf
                  then fadd cost_leg1 cost_pickup_and_final_leg
                  else PInf)
            else PInf)
      else PInf)"

definition nf_min_overall_cost :: "demand \<Rightarrow> pyfloat" where
  "nf_min_overall_cost st =
     fold (\<lambda>start_center m.
             fmin (fmin m (nf_cost_simple st start_center)) (nf_cost_partial st start_center))
       nf_CENTERS PInf"

definition nf_calculate_overall_minimum_cost :: "(string \<times> pyval) list \<Rightarrow> error + int" where
  "nf_calculate_overall_minimum_cost order_data =
     (case nf_parse_order order_data initial_demand of
        Inl parse_error \<Rightarrow> Inl parse_error
      | Inr st \<Rightarrow>
          if items_needed st = [] then Inr 0
          else (case nf_min_overall_cost st of
                  PInf \<Rightarrow> Inl NoValidPath
                | Fin m \<Rightarrow> Inr (py_round m)))"

section \<open>Orders and routes as the specification speaks of them\<close>




section \<open>Auxiliary definitions for the proofs\<close>

text \<open>
  The distance a leg really covers in the documented topology: the direct edge, or the
  two edges through \<open>C2\<close> between \<open>C1\<close> and \<open>C3\<close>.
\<close>

fun route_distance :: "loc \<Rightarrow> loc \<Rightarrow> rat" where
  "route_distance C1 C2 = 4" | "route_distance C2 C1 = 4"
| "route_distance C2 C3 = 3" | "route_distance C3 C2 = 3"
| "route_distance C1 C3 = 7" | "route_distance C3 C1 = 7"
| "route_distance C1 L1 = 3" | "route_distance L1 C1 = 3"
| "route_distance C2 L1 = 5 / 2" | "route_distance L1 C2 = 5 / 2"
| "route_distance C3 L1 = 2" | "route_distance L1 C3 = 2"
| "route_distance C1 C1 = 0" | "route_distance C2 C2 = 0"
| "route_distance C3 C3 = 0" | "route_distance L1 L1 = 0"







section \<open>Properties of the helper functions\<close>





lemma segment_cost_finite: "calculate_segment_cost w d \<noteq> PInf"
  by (cases d) simp_all

lemma get_distance_DISTANCES:
  "get_distance DISTANCES a b =
     (if a = b then Fin 0
      else if (a = C1 \<and> b = C3) \<or> (a = C3 \<and> b = C1) then PInf
      else Fin (if a = L1 then (if b = C1 then 3 else if b = C2 then 5 / 2 else 2)
                else if b = L1 then (if a = C1 then 3 else if a = C2 then 5 / 2 else 2)
                else if a = C2 then (if b = C1 then 4 else 3)
                else (if a = C1 then 4 else 3)))"
  by (cases a; cases b; simp add: get_distance_def DISTANCES_def)

lemma travel_cost_DISTANCES:
  "calculate_travel_cost_between_stops DISTANCES a b w = Fin (cost_per_unit w * route_distance a b)"
  by (cases a; cases b;
      simp add: calculate_travel_cost_between_stops_def get_distance_DISTANCES algebra_simps)

lemma route_distance_sym: "route_distance a b = route_distance b a"
  by (cases a; cases b; simp)






text \<open>
  Claim C10. For any two locations among \<open>C1\<close>, \<open>C2\<close>, \<open>C3\<close>, \<open>L1\<close> and every weight
  \<open>w \<ge> 0\<close> the resolved leg cost is the same in both directions.
\<close>

theorem leg_cost_symmetric:
  assumes "a \<in> set LOCATIONS" and "b \<in> set LOCATIONS" and "0 \<le> w"
  shows "calculate_travel_cost_between_stops DISTANCES a b w =
         calculate_travel_cost_between_stops DISTANCES b a w"
  by (simp add: travel_cost_DISTANCES route_distance_sym [of a b])

theorem leg_cost_symmetric_witness:
  "C1 \<in> set LOCATIONS \<and> C3 \<in> set LOCATIONS \<and> (0::rat) \<le> 12
    \<and> calculate_travel_cost_between_stops DISTANCES C1 C3 12 =
       calculate_travel_cost_between_stops DISTANCES C3 C1 12"
proof -
  have h1: "C1 \<in> set LOCATIONS" and h2: "C3 \<in> set LOCATIONS" and h3: "(0::rat) \<le> 12"
    by (simp_all add: LOCATIONS_def)
  show ?thesis
    using leg_cost_symmetric [OF h1 h2 h3] h1 h2 by simp
qed

section \<open>The detour when a sub-leg is missing\<close>

lemma detour_never_unreachable:
  "calculate_travel_cost_between_stops tbl C1 C3 w \<noteq> PInf"
proof -
  obtain x where x: "calculate_segment_cost w (get_distance tbl C1 C2) = Fin x"
    using segment_cost_finite by (cases "calculate_segment_cost w (get_distance tbl C1 C2)") auto
  obtain y where y: "calculate_segment_cost w (get_distance tbl C2 C3) = Fin y"
    using segment_cost_finite by (cases "calculate_segment_cost w (get_distance tbl C2 C3)") auto
  show ?thesis
    using x y segment_cost_finite [of w "get_distance tbl C1 C3"]
    by (simp add: calculate_travel_cost_between_stops_def Let_def)
qed

text \<open>
  Claim C7 says that the leg from \<open>C1\<close> to \<open>C3\<close> is unreachable as soon as one of its two
  sub-legs has no defined distance. The resolver tests the two sub-leg \<^emph>\<open>costs\<close> against
  infinity, but the segment pricer returns 0 for an infinite distance, so the test never
  fires. With the edge between \<open>C1\<close> and \<open>C2\<close> taken out of the table, the sub-leg distance
  is infinite and the leg from \<open>C1\<close> to \<open>C3\<close> at weight 5 is still priced, at 30: the missing
  sub-leg counts as 0 and only the leg from \<open>C2\<close> to \<open>C3\<close> is charged.
\<close>

theorem detour_missing_subleg_priced:
  "get_distance (filter (\<lambda>(k, d). k \<noteq> (C1, C2) \<and> k \<noteq> (C2, C1)) DISTANCES) C1 C2 = PInf
   \<and> calculate_travel_cost_between_stops
        (filter (\<lambda>(k, d). k \<noteq> (C1, C2) \<and> k \<noteq> (C2, C1)) DISTANCES) C1 C3 5 = Fin 30"
  by (simp add: calculate_travel_cost_between_stops_def get_distance_def DISTANCES_def
      cost_per_unit_def epsilon_def)

section \<open>Parsing and validation\<close>

lemma parse_all_zero:
  "\<forall>e \<in> set order_data. snd e = PyInt 0 \<Longrightarrow> parse_order order_data st = Inr st"
  by (induction order_data) auto

lemma search_of_initial_demand: "min_overall_cost DISTANCES initial_demand = Fin 20"
  by (simp add: min_overall_cost_def CENTERS_def cost_simple_def cost_partial_def
      initial_demand_def list_of_set_def LOCATIONS_def travel_cost_DISTANCES
      cost_per_unit_def epsilon_def)

text \<open>
  Claim C8. An order with no positive-quantity entry (the empty mapping, or every quantity
  zero) returns the cost 0, and it does so without the route search: the demand is still
  the initial one, on which the search would have found 20, not 0.
\<close>

theorem empty_order_short_circuit:
  assumes "\<forall>e \<in> set order_data. snd e = PyInt 0"
  shows "calculate_overall_minimum_cost order_data = Inr 0
    \<and> parse_order order_data initial_demand = Inr initial_demand
    \<and> min_overall_cost DISTANCES initial_demand = Fin 20"
  using parse_all_zero [OF assms] search_of_initial_demand
  by (simp add: calculate_overall_minimum_cost_def initial_demand_def)

theorem empty_order_short_circuit_witness:
  "calculate_overall_minimum_cost [(''A'', PyInt 0), (''G'', PyInt 0)] = Inr 0
    \<and> calculate_overall_minimum_cost [] = Inr 0"
proof -
  have h: "\<forall>e \<in> set [(''A'', PyInt 0), (''G'', PyInt 0)]. snd e = PyInt 0" by simp
  have h0: "\<forall>e \<in> set ([] :: (string \<times> pyval) list). snd e = PyInt 0" by simp
  show ?thesis
    using empty_order_short_circuit [OF h] empty_order_short_circuit [OF h0] by simp
qed







section \<open>The two entry points compute the same function\<close>

lemma nf_tables: "nf_PRODUCTS = PRODUCTS" "nf_DISTANCES = DISTANCES" "nf_CENTERS = CENTERS"
  by (simp_all add: nf_PRODUCTS_def PRODUCTS_def nf_DISTANCES_def DISTANCES_def
      nf_CENTERS_def CENTERS_def)

lemma nf_get_distance_eq: "nf_get_distance a b = get_distance DISTANCES a b"
  unfolding nf_get_distance_def get_distance_def nf_tables by (rule refl)

lemma nf_segment_cost_eq: "nf_calculate_segment_cost w d = calculate_segment_cost w d"
  by (cases d) (simp_all add: cost_per_unit_def)

lemma nf_travel_cost_eq:
  "nf_calculate_travel_cost_between_stops a b w =
   calculate_travel_cost_between_stops DISTANCES a b w"
  unfolding nf_calculate_travel_cost_between_stops_def
      calculate_travel_cost_between_stops_def nf_get_distance_eq nf_segment_cost_eq
  by (simp add: Let_def)

lemma nf_parse_order_eq: "nf_parse_order order_data st = parse_order order_data st"
  by (induction order_data st rule: parse_order.induct)
     (simp_all add: nf_tables Let_def split: option.splits)

lemma nf_pickup_legs_eq:
  "nf_pickup_legs wfc order a c w = pickup_legs DISTANCES wfc order a c w"
  by (induction order arbitrary: a c w) (simp_all add: nf_travel_cost_eq split: pyfloat.splits)

lemma nf_perm_step_eq: "nf_perm_step wfc s w0 w1 = perm_step DISTANCES wfc s w0 w1"
  unfolding nf_perm_step_def perm_step_def nf_pickup_legs_eq nf_travel_cost_eq
  by (rule refl)

lemma nf_cost_simple_eq: "nf_cost_simple st s = cost_simple DISTANCES st s"
  unfolding nf_cost_simple_def cost_simple_def nf_perm_step_eq nf_travel_cost_eq
  by (rule refl)

lemma nf_cost_partial_eq: "nf_cost_partial st s = cost_partial DISTANCES st s"
  unfolding nf_cost_partial_def cost_partial_def nf_perm_step_eq nf_travel_cost_eq
  by (rule refl)

lemma fmin_assoc: "fmin (fmin a b) c = fmin a (fmin b c)"
  by (cases a; cases b; cases c) (simp_all add: min.assoc)

lemma nf_min_overall_cost_eq: "nf_min_overall_cost st = min_overall_cost DISTANCES st"
  unfolding nf_min_overall_cost_def min_overall_cost_def nf_tables nf_cost_simple_eq
      nf_cost_partial_eq fmin_assoc
  by (rule refl)

text \<open>
  Claim C9. The core of \<^verbatim>\<open>src/app.py\<close> and the core of
  \<^verbatim>\<open>src/netlify/functions/app.py\<close> return the same cost on every order on which one of
  them succeeds, and they fail on exactly the same orders.
\<close>

theorem entry_points_agree:
  "(\<forall>c. calculate_overall_minimum_cost order_data = Inr c
         \<longleftrightarrow> nf_calculate_overall_minimum_cost order_data = Inr c)
   \<and> ((\<exists>e. calculate_overall_minimum_cost order_data = Inl e)
         \<longleftrightarrow> (\<exists>e. nf_calculate_overall_minimum_cost order_data = Inl e))"
  unfolding nf_calculate_overall_minimum_cost_def calculate_overall_minimum_cost_def
      nf_parse_order_eq nf_min_overall_cost_eq
  by simp

section \<open>Permutations and visiting orders\<close>










section \<open>Route costs in the documented topology\<close>


lemma fle_trans: "fle a b \<Longrightarrow> fle b c \<Longrightarrow> fle a c"
  by (cases a; cases b; cases c) simp_all

lemma fle_fmin_left: "fle (fmin a b) a"
  by (cases a; cases b) simp_all



lemma fle_fmin_below: "fle c a \<Longrightarrow> fle (fmin c b) a"
  using fle_trans [OF fle_fmin_left] by blast











section \<open>The two strategies against the candidate routes\<close>












section \<open>The search returns the minimum over all candidate routes\<close>













section \<open>The demand built by the parsing loop\<close>














section \<open>Feasibility and the rounded minimum\<close>






section \<open>Monotonicity of the minimum cost\<close>










end
